theory Spec2Isabelle
  imports Complex_Main
begin

section \<open>The small-world experiment of \<open>experiment.py\<close>\<close>

text \<open>
  The script defines one class, \<open>SmallWorld\<close>, with a constructor and the methods
  \<open>visualize_graph\<close>, \<open>get_avg_path\<close>, \<open>get_clustering_coefficient\<close> and
  \<open>print_info\<close>. Numbers: \<open>n\<close> and \<open>k\<close> are Python integers (\<open>int\<close> here); a rewiring
  probability and every computed metric is a Python float, modelled by an exact rational
  (\<open>rat\<close>). Two things of binary floating point are therefore outside the model. Rounding:
  a computed value is the exact one, where the code holds the nearest double; the values
  compared in C1 and C2 below (\<open>9/2\<close> with \<open>1/2\<close>, \<open>9/16\<close> with \<open>1/16\<close>) are exact as
  doubles as well. Range: an integer, or a quotient of two integers, of magnitude
  \<open>2^1024 - 2^970\<close> or more does not convert to a float, and Python raises
  \<open>OverflowError\<close> there; the model has no such branch, and \<open>scalars_in_float_range\<close> and
  \<open>betas_in_float_range\<close> below say of \<open>k\<close>, \<open>n\<close> and the betas that lines 77 to 79 stay
  clear of it.
\<close>

subsection \<open>Exceptions\<close>

datatype error =
    ValueError string
  | ZeroDivisionError
  | IndexError
  | NetworkXError string

subsection \<open>The libraries the class calls\<close>

text \<open>
  \<open>networkx\<close> is not part of the repository. Its three functions that the class calls are
  parameters of the model: the generator \<open>nx.watts_strogatz_graph(n, k, p)\<close>, which draws
  from the module-global random generator (state \<open>'s\<close>) and may raise;
  \<open>nx.circular_layout(g)\<close>; and \<open>nx.average_shortest_path_length(g)\<close>, which may raise.
\<close>

record ('g, 'p, 's) networkx =
  watts_strogatz_graph :: "int \<Rightarrow> int \<Rightarrow> rat \<Rightarrow> 's \<Rightarrow> (error + 'g) \<times> 's"
  circular_layout :: "'g \<Rightarrow> 'p"
  average_shortest_path_length :: "'g \<Rightarrow> error + rat"

subsection \<open>The object\<close>

text \<open>
  The constructor stores every argument as an attribute of the same name
  (\<open>setattr(self, attr, eval(attr))\<close> over \<open>locals()\<close>), then \<open>g\<close> and \<open>pos\<close>.
\<close>

record ('g, 'p) SmallWorld =
  self_n :: int
  self_k :: int
  self_beta :: "rat list"
  self_visualize :: bool
  self_fig_path :: string
  self_g :: "'g list"
  self_pos :: "'p list"

subsection \<open>\<open>get_clustering_coefficient\<close>\<close>

text \<open>
  \<open>np.zeros(m)\<close>, and \<open>np.where(cond, x, y)\<close> on arrays of one length; a scalar second
  argument is broadcast to that length first.
\<close>

definition np_zeros :: "nat \<Rightarrow> rat list" where
  "np_zeros m = replicate m 0"

definition broadcast :: "nat \<Rightarrow> rat \<Rightarrow> rat list" where
  "broadcast m v = replicate m v"

definition np_where :: "bool list \<Rightarrow> rat list \<Rightarrow> rat list \<Rightarrow> rat list" where
  "np_where cond xs ys = map (\<lambda>(c, x, y). if c then x else y) (zip cond (zip xs ys))"

text \<open>Python's \<open>a / b\<close> on two integers: true division, \<open>ZeroDivisionError\<close> when \<open>b = 0\<close>.\<close>

definition true_div :: "int \<Rightarrow> int \<Rightarrow> error + rat" where
  "true_div a b = (if b = 0 then Inl ZeroDivisionError else Inr (of_int a / of_int b))"

text \<open>
  The expression \<open>3*(self.k-2)/4*(self.k-1)\<close> of lines 77 and 79: Python's \<open>*\<close> and \<open>/\<close>
  have one precedence and associate to the left, so it is \<open>((3*(k-2))/4)*(k-1)\<close>.
\<close>

definition lattice_term :: "int \<Rightarrow> rat" where
  "lattice_term k = of_int (3 * (k - 2)) / 4 * of_int (k - 1)"

definition get_clustering_coefficient :: "('g, 'p) SmallWorld \<Rightarrow> error + rat list" where
  "get_clustering_coefficient self =
     (let m = length (self_beta self);
          result = np_zeros m;
          betas = self_beta self;
          result = np_where (map (\<lambda>b. b = 0) betas)
                     (broadcast m (lattice_term (self_k self))) result
      in case true_div (self_k self) (self_n self) of
           Inl e \<Rightarrow> Inl e
         | Inr q \<Rightarrow>
             (let result = np_where (map (\<lambda>b. b = 1) betas) (broadcast m q) result;
                  result = np_where (map (\<lambda>b. b < 1 \<and> b > 0) betas)
                             (map (\<lambda>b. lattice_term (self_k self) * ((1 - b) ^ 3)) betas) result
              in Inr result))"

text \<open>
  The scalars of lines 77 and 78 that Python converts to a float: the true division
  \<open>3*(k-2)/4\<close>, the integer \<open>k-1\<close> that multiplies it, and the true division \<open>k/n\<close>. Each
  raises \<open>OverflowError\<close> when its magnitude reaches \<open>2^1024 - 2^970\<close> (the first value that
  rounds beyond the largest double). The product of line 77 and the array arithmetic of
  line 79 on floats raise nothing when they overflow: they give \<open>inf\<close> or \<open>nan\<close>. A beta
  entry is a float here; one given as a Python integer too large for a machine word stays
  an integer in the array, and so does \<open>(1 - b)**3\<close>, which line 79 then converts to a
  float as it multiplies: \<open>betas_in_float_range\<close> says that every entry and every such
  cube is in the range.
\<close>

definition in_float_range :: "rat \<Rightarrow> bool" where
  "in_float_range x = (\<bar>x\<bar> < 2 ^ 1024 - 2 ^ 970)"

definition scalars_in_float_range :: "int \<Rightarrow> int \<Rightarrow> bool" where
  "scalars_in_float_range k n =
     (in_float_range (of_int (3 * (k - 2)) / 4) \<and> in_float_range (of_int (k - 1)) \<and>
      in_float_range (of_int k / of_int n))"

definition betas_in_float_range :: "rat list \<Rightarrow> bool" where
  "betas_in_float_range betas =
     list_all (\<lambda>b. in_float_range b \<and> in_float_range ((1 - b) ^ 3)) betas"

subsection \<open>The constructor\<close>

text \<open>
  The \<open>beta\<close> argument is a float, an int or a list (docstring of \<open>__init__\<close>);
  \<open>isinstance(beta, list)\<close> tells the two apart.
\<close>

datatype beta_arg = Scalar rat | BetaList "rat list"

text \<open>
  The comprehension \<open>[nx.watts_strogatz_graph(self.n, self.k, b) for b in self.beta]\<close>:
  one call per entry, in order, each on the random state the previous call left; the
  first exception ends the comprehension.
\<close>

fun build_graphs ::
  "('g, 'p, 's) networkx \<Rightarrow> int \<Rightarrow> int \<Rightarrow> rat list \<Rightarrow> 's \<Rightarrow> (error + 'g list) \<times> 's" where
  "build_graphs nx n k [] s = (Inr [], s)"
| "build_graphs nx n k (b # bs) s =
     (case watts_strogatz_graph nx n k b s of
        (Inl e, s') \<Rightarrow> (Inl e, s')
      | (Inr gr, s') \<Rightarrow>
          (case build_graphs nx n k bs s' of
             (Inl e, s'') \<Rightarrow> (Inl e, s'')
           | (Inr grs, s'') \<Rightarrow> (Inr (gr # grs), s'')))"

text \<open>Lines 32 and 33: \<open>if not isinstance(beta, list): self.beta = [beta]\<close>.\<close>

definition normalize_beta :: "beta_arg \<Rightarrow> rat list" where
  "normalize_beta beta = (case beta of BetaList bs \<Rightarrow> bs | Scalar b \<Rightarrow> [b])"

definition SmallWorld_init ::
  "('g, 'p, 's) networkx \<Rightarrow> int \<Rightarrow> int \<Rightarrow> beta_arg \<Rightarrow> bool \<Rightarrow> string \<Rightarrow> 's
     \<Rightarrow> (error + ('g, 'p) SmallWorld) \<times> 's" where
  "SmallWorld_init nx n k beta visualize fig_path s =
     (let betas = normalize_beta beta
      in case build_graphs nx n k betas s of
           (Inl e, s') \<Rightarrow> (Inl e, s')
         | (Inr gs, s') \<Rightarrow>
             (Inr \<lparr>self_n = n, self_k = k, self_beta = betas, self_visualize = visualize,
                   self_fig_path = fig_path, self_g = gs,
                   self_pos = map (circular_layout nx) gs\<rparr>, s'))"

subsection \<open>\<open>get_avg_path\<close>\<close>

fun avg_paths_of :: "('g \<Rightarrow> error + rat) \<Rightarrow> 'g list \<Rightarrow> error + rat list" where
  "avg_paths_of f [] = Inr []"
| "avg_paths_of f (gr # grs) =
     (case f gr of
        Inl e \<Rightarrow> Inl e
      | Inr a \<Rightarrow> (case avg_paths_of f grs of Inl e \<Rightarrow> Inl e | Inr as \<Rightarrow> Inr (a # as)))"

definition get_avg_path :: "('g, 'p, 's) networkx \<Rightarrow> ('g, 'p) SmallWorld \<Rightarrow> error + rat list" where
  "get_avg_path nx self = avg_paths_of (average_shortest_path_length nx) (self_g self)"

subsection \<open>\<open>visualize_graph\<close>\<close>

text \<open>Indexing a list at an index that \<open>enumerate\<close> produced (never negative).\<close>

definition py_index :: "'a list \<Rightarrow> nat \<Rightarrow> error + 'a" where
  "py_index xs i = (if i < length xs then Inr (xs ! i) else Inl IndexError)"

text \<open>
  \<open>round(x, 2)\<close> on a float: the nearest multiple of \<open>1/100\<close> of the value, a tie going to
  the even one. The code rounds the double it holds, so where the exact value is a tie that
  no double equals (\<open>0.225\<close> is stored slightly above) the code's result is the neighbour
  on the side of the double; no property below reads a rounded title value.
\<close>

definition py_round2 :: "rat \<Rightarrow> rat" where
  "py_round2 x =
     (let y = x * 100; f = \<lfloor>y\<rfloor>; d = y - of_int f
      in of_int (if d < 1 / 2 then f else if d > 1 / 2 then f + 1
                 else if even f then f else f + 1) / 100)"

text \<open>\<open>str(i)\<close> for an integer, as an f-string prints it.\<close>

fun string_of_nat :: "nat \<Rightarrow> string" where
  "string_of_nat i =
     (if i < 10 then [''0123456789'' ! i]
      else string_of_nat (i div 10) @ [''0123456789'' ! (i mod 10)])"

declare string_of_nat.simps [simp del]

definition string_of_int :: "int \<Rightarrow> string" where
  "string_of_int i = (if i < 0 then ''-'' @ string_of_nat (nat (- i)) else string_of_nat (nat i))"

text \<open>
  What one iteration draws and saves: the three numbers of the title (the f-string
  \<open>labels\<close>), the figure size, the graph and its layout. The files saved are a log of
  (name, figure) pairs in the order of the \<open>plt.savefig\<close> calls.
\<close>

record ('g, 'p) figure =
  title_beta :: rat
  title_avg_path_length :: rat
  title_clustering_coefficient :: rat
  figsize :: "nat \<times> nat"
  drawn_graph :: 'g
  drawn_pos :: 'p

text \<open>The f-string \<open>f"graph{idx}.png"\<close> of line 55.\<close>

definition graph_name :: "nat \<Rightarrow> string" where
  "graph_name idx = ''graph'' @ string_of_nat idx @ ''.png''"

type_synonym ('g, 'p) files = "(string \<times> ('g, 'p) figure) list"

definition savefig :: "string \<Rightarrow> ('g, 'p) figure \<Rightarrow> ('g, 'p) files \<Rightarrow> ('g, 'p) files" where
  "savefig name fig fs = fs @ [(name, fig)]"

fun draw_loop ::
  "('g, 'p) SmallWorld \<Rightarrow> rat list \<Rightarrow> rat list \<Rightarrow> nat \<Rightarrow> rat list \<Rightarrow> ('g, 'p) files
     \<Rightarrow> (error + unit) \<times> ('g, 'p) files" where
  "draw_loop self avg_paths clusters idx [] fs = (Inr (), fs)"
| "draw_loop self avg_paths clusters idx (b # bs) fs =
     (case py_index avg_paths idx of
        Inl e \<Rightarrow> (Inl e, fs)
      | Inr a \<Rightarrow>
         (case py_index clusters idx of
            Inl e \<Rightarrow> (Inl e, fs)
          | Inr c \<Rightarrow>
             (case py_index (self_g self) idx of
                Inl e \<Rightarrow> (Inl e, fs)
              | Inr gr \<Rightarrow>
                 (case py_index (self_pos self) idx of
                    Inl e \<Rightarrow> (Inl e, fs)
                  | Inr ps \<Rightarrow>
                      draw_loop self avg_paths clusters (Suc idx) bs
                        (savefig (graph_name idx)
                           \<lparr>title_beta = b, title_avg_path_length = py_round2 a,
                            title_clustering_coefficient = py_round2 c, figsize = (14, 14),
                            drawn_graph = gr, drawn_pos = ps\<rparr> fs)))))"

definition visualize_graph ::
  "('g, 'p, 's) networkx \<Rightarrow> ('g, 'p) SmallWorld \<Rightarrow> ('g, 'p) files
     \<Rightarrow> (error + unit) \<times> ('g, 'p) files" where
  "visualize_graph nx self fs =
     (if self_n self > 5000
      then (Inl (ValueError
              ''Number of nodes is too much, it's hard to visualize graph as image''), fs)
      else
        (case get_avg_path nx self of
           Inl e \<Rightarrow> (Inl e, fs)
         | Inr avg_paths \<Rightarrow>
            (case get_clustering_coefficient self of
               Inl e \<Rightarrow> (Inl e, fs)
             | Inr clusters \<Rightarrow> draw_loop self avg_paths clusters 0 (self_beta self) fs)))"

subsection \<open>\<open>print_info\<close>\<close>

text \<open>The \<open>if\<close>/\<open>elif\<close>/\<open>else\<close> of lines 96 to 101, which chooses \<open>network_cat\<close>.\<close>

definition network_cat :: "rat \<Rightarrow> string" where
  "network_cat b =
     (if b = 0 then ''Regular network (Ring lattice)''
      else if b = 1 then ''Random network''
      else ''Small-world network'')"

text \<open>
  A printed line is a text, or a table row: the four values given to the format
  \<open>{:<5} |{:>20} |{:>30} |{:>30}\<close>.
\<close>

datatype line = Text string | Row rat rat rat string

definition ljust :: "nat \<Rightarrow> string \<Rightarrow> string" where
  "ljust w s = s @ replicate (w - length s) CHR '' ''"

definition rjust :: "nat \<Rightarrow> string \<Rightarrow> string" where
  "rjust w s = replicate (w - length s) CHR '' '' @ s"

fun print_rows ::
  "rat list \<Rightarrow> rat list \<Rightarrow> nat \<Rightarrow> rat list \<Rightarrow> line list \<Rightarrow> (error + unit) \<times> line list" where
  "print_rows avg_paths clusters idx [] out = (Inr (), out)"
| "print_rows avg_paths clusters idx (b # bs) out =
     (let cat = network_cat b in
      (case py_index avg_paths idx of
         Inl e \<Rightarrow> (Inl e, out)
       | Inr a \<Rightarrow>
          (case py_index clusters idx of
             Inl e \<Rightarrow> (Inl e, out)
           | Inr c \<Rightarrow> print_rows avg_paths clusters (Suc idx) bs (out @ [Row b a c cat]))))"

definition print_info ::
  "('g, 'p) SmallWorld \<Rightarrow> rat list \<Rightarrow> rat list \<Rightarrow> line list \<Rightarrow> (error + unit) \<times> line list" where
  "print_info self avg_paths clusters out =
     print_rows avg_paths clusters 0 (self_beta self)
       (out @ [Text (''Number of nodes: '' @ string_of_int (self_n self)),
               Text (''K: '' @ string_of_int (self_k self)),
               Text (ljust 5 ''beta'' @ '' |'' @ rjust 20 ''avg shortest path'' @ '' |''
                     @ rjust 30 ''clustering coefficient'' @ '' |''
                     @ rjust 30 ''network category'')])"

subsection \<open>A library to run the model on\<close>

text \<open>
  To evaluate the class at concrete arguments the three library functions need values.
  \<open>recording_nx\<close> accepts every argument: its generator returns, as the graph, the
  arguments it was called with and the random state it saw, and advances that state;
  the layout of such a graph is its node count; every average path length is \<open>2\<close>.
  \<open>rejecting_nx\<close> differs in the generator only, which raises when \<open>k > n\<close> and
  leaves the random state as it was.
\<close>

definition recording_nx :: "(int \<times> int \<times> rat \<times> nat, int, nat) networkx" where
  "recording_nx =
     \<lparr>watts_strogatz_graph = (\<lambda>n k p s. (Inr (n, k, p, s), Suc s)),
      circular_layout = (\<lambda>gr. fst gr),
      average_shortest_path_length = (\<lambda>gr. Inr 2)\<rparr>"

definition rejecting_nx :: "(int \<times> int \<times> rat \<times> nat, int, nat) networkx" where
  "rejecting_nx =
     \<lparr>watts_strogatz_graph =
        (\<lambda>n k p s. if k > n then (Inl (NetworkXError ''k>n, choose smaller k or larger n''), s)
                   else (Inr (n, k, p, s), Suc s)),
      circular_layout = (\<lambda>gr. fst gr),
      average_shortest_path_length = (\<lambda>gr. Inr 2)\<rparr>"

section \<open>Properties\<close>

subsection \<open>The value at each position\<close>

lemma length_np_where:
  "length (np_where cond xs ys) = min (length cond) (min (length xs) (length ys))"
  by (simp add: np_where_def)

lemma nth_np_where:
  "i < length cond \<Longrightarrow> i < length xs \<Longrightarrow> i < length ys \<Longrightarrow>
   np_where cond xs ys ! i = (if cond ! i then xs ! i else ys ! i)"
  by (simp add: np_where_def)

lemma get_clustering_coefficient_zero_n:
  "self_n self = 0 \<Longrightarrow> get_clustering_coefficient self = Inl ZeroDivisionError"
  by (simp add: get_clustering_coefficient_def true_div_def Let_def)

lemma get_clustering_coefficient_returns:
  assumes "self_n self \<noteq> 0"
  shows "\<exists>cs. get_clustering_coefficient self = Inr cs \<and> length cs = length (self_beta self)"
  using assms
  by (simp add: get_clustering_coefficient_def true_div_def Let_def length_np_where
      np_zeros_def broadcast_def)

lemma get_clustering_coefficient_nth:
  assumes "get_clustering_coefficient self = Inr cs" and "i < length (self_beta self)"
  shows "cs ! i =
     (let b = self_beta self ! i in
      if b < 1 \<and> b > 0 then lattice_term (self_k self) * ((1 - b) ^ 3)
      else if b = 1 then of_int (self_k self) / of_int (self_n self)
      else if b = 0 then lattice_term (self_k self)
      else 0)"
  using assms
  by (auto simp add: get_clustering_coefficient_def true_div_def Let_def length_np_where
      nth_np_where np_zeros_def broadcast_def split: if_splits)

subsection \<open>The constructor's comprehension\<close>

lemma build_graphs_length:
  "build_graphs nx n k betas s = (Inr gs, s') \<Longrightarrow> length gs = length betas"
proof (induction betas arbitrary: s gs s')
  case Nil
  then show ?case by simp
next
  case (Cons b bs)
  then show ?case
    by (auto split: prod.splits sum.splits)
qed

lemma build_graphs_accepts:
  assumes "\<forall>b \<in> set betas. \<forall>s0. \<exists>gr s1. watts_strogatz_graph nx n k b s0 = (Inr gr, s1)"
  shows "\<exists>gs s'. build_graphs nx n k betas s = (Inr gs, s')"
  using assms
proof (induction betas arbitrary: s)
  case Nil
  then show ?case by simp
next
  case (Cons b bs)
  from Cons.prems obtain gr s1 where g: "watts_strogatz_graph nx n k b s = (Inr gr, s1)"
    by (meson list.set_intros(1))
  from Cons.prems have "\<forall>b \<in> set bs. \<forall>s0. \<exists>gr s1. watts_strogatz_graph nx n k b s0 = (Inr gr, s1)"
    by simp
  from Cons.IH [OF this, of s1] obtain gs s' where "build_graphs nx n k bs s1 = (Inr gs, s')"
    by blast
  with g show ?case by simp
qed

lemma build_graphs_error_origin:
  "build_graphs nx n k betas s = (Inl e, s') \<Longrightarrow>
   \<exists>b \<in> set betas. \<exists>s0. watts_strogatz_graph nx n k b s0 = (Inl e, s')"
proof (induction betas arbitrary: s)
  case Nil
  then show ?case by simp
next
  case (Cons b bs)
  then show ?case
    by (fastforce split: prod.splits sum.splits)
qed

lemma build_graphs_trace:
  "build_graphs nx n k bs s = (Inr gs, s') \<Longrightarrow>
   \<exists>ss. length ss = Suc (length bs) \<and> length gs = length bs \<and> ss ! 0 = s \<and> ss ! length bs = s' \<and>
        (\<forall>i < length bs. watts_strogatz_graph nx n k (bs ! i) (ss ! i) = (Inr (gs ! i), ss ! Suc i))"
proof (induction bs arbitrary: s gs s')
  case Nil
  then show ?case by (intro exI [of _ "[s]"]) simp
next
  case (Cons b bs)
  from Cons.prems obtain gr s1 grs
    where g: "watts_strogatz_graph nx n k b s = (Inr gr, s1)"
      and r: "build_graphs nx n k bs s1 = (Inr grs, s')"
      and gs: "gs = gr # grs"
    by (auto split: prod.splits sum.splits)
  from Cons.IH [OF r] obtain ss
    where ss: "length ss = Suc (length bs)" "length grs = length bs" "ss ! 0 = s1"
      "ss ! length bs = s'"
      "\<forall>i < length bs. watts_strogatz_graph nx n k (bs ! i) (ss ! i) = (Inr (grs ! i), ss ! Suc i)"
    by blast
  have "\<forall>i < length (b # bs). watts_strogatz_graph nx n k ((b # bs) ! i) ((s # ss) ! i)
          = (Inr (gs ! i), (s # ss) ! Suc i)"
  proof (intro allI impI)
    fix i assume "i < length (b # bs)"
    then show "watts_strogatz_graph nx n k ((b # bs) ! i) ((s # ss) ! i)
          = (Inr (gs ! i), (s # ss) ! Suc i)"
      using g gs ss by (cases i) simp_all
  qed
  with ss gs show ?case
    by (intro exI [of _ "s # ss"]) simp
qed

lemma build_graphs_error_trace:
  "build_graphs nx n k bs s = (Inl e, s') \<Longrightarrow>
   \<exists>i < length bs. \<exists>ss gs. length ss = Suc i \<and> length gs = i \<and> ss ! 0 = s \<and>
      (\<forall>j < i. watts_strogatz_graph nx n k (bs ! j) (ss ! j) = (Inr (gs ! j), ss ! Suc j)) \<and>
      watts_strogatz_graph nx n k (bs ! i) (ss ! i) = (Inl e, s')"
proof (induction bs arbitrary: s)
  case Nil
  then show ?case by simp
next
  case (Cons b bs)
  show ?case
  proof (cases "watts_strogatz_graph nx n k b s")
    case (Pair r s1)
    show ?thesis
    proof (cases r)
      case (Inl e1)
      with Pair Cons.prems have "watts_strogatz_graph nx n k b s = (Inl e, s')"
        by simp
      then show ?thesis
        by (intro exI [of _ 0] conjI exI [of _ "[s]"] exI [of _ "[]"]) simp_all
    next
      case (Inr gr)
      with Pair Cons.prems have r: "build_graphs nx n k bs s1 = (Inl e, s')"
        by (auto split: prod.splits sum.splits)
      from Cons.IH [OF r] obtain i ss gs
        where i: "i < length bs" and ss: "length ss = Suc i" "length gs = i" "ss ! 0 = s1"
          "\<forall>j < i. watts_strogatz_graph nx n k (bs ! j) (ss ! j) = (Inr (gs ! j), ss ! Suc j)"
          "watts_strogatz_graph nx n k (bs ! i) (ss ! i) = (Inl e, s')"
        by blast
      have "\<forall>j < Suc i. watts_strogatz_graph nx n k ((b # bs) ! j) ((s # ss) ! j)
              = (Inr ((gr # gs) ! j), (s # ss) ! Suc j)"
      proof (intro allI impI)
        fix j assume "j < Suc i"
        then show "watts_strogatz_graph nx n k ((b # bs) ! j) ((s # ss) ! j)
              = (Inr ((gr # gs) ! j), (s # ss) ! Suc j)"
          using Pair Inr ss by (cases j) simp_all
      qed
      with i ss show ?thesis
        by (intro exI [of _ "Suc i"] conjI exI [of _ "s # ss"] exI [of _ "gr # gs"]) simp_all
    qed
  qed
qed

subsection \<open>The loops of \<open>get_avg_path\<close>, \<open>visualize_graph\<close> and \<open>print_info\<close>\<close>

lemma avg_paths_of_length:
  "avg_paths_of f gs = Inr as \<Longrightarrow> length as = length gs"
  by (induction gs arbitrary: as) (auto split: sum.splits)

lemma draw_loop_fig_path:
  "draw_loop (self\<lparr>self_fig_path := p\<rparr>) avg_paths clusters idx bs fs =
   draw_loop self avg_paths clusters idx bs fs"
  by (induction bs arbitrary: idx fs) (auto split: sum.splits)

lemma draw_loop_names:
  "\<exists>new m. m \<le> length bs \<and> snd (draw_loop self avg_paths clusters idx bs fs) = fs @ new \<and>
     map fst new = map graph_name [idx ..< idx + m] \<and>
     (fst (draw_loop self avg_paths clusters idx bs fs) = Inr () \<longrightarrow> m = length bs)"
proof (induction bs arbitrary: idx fs)
  case Nil
  then show ?case by simp
next
  case (Cons b bs)
  show ?case
  proof (cases "idx < length avg_paths \<and> idx < length clusters \<and> idx < length (self_g self)
                 \<and> idx < length (self_pos self)")
    case False
    then have "draw_loop self avg_paths clusters idx (b # bs) fs = (Inl IndexError, fs)"
      by (auto simp: py_index_def)
    then show ?thesis
      by (intro exI [of _ "[]"] exI [of _ 0]) simp
  next
    case True
    define fig where "fig = \<lparr>title_beta = b, title_avg_path_length = py_round2 (avg_paths ! idx),
              title_clustering_coefficient = py_round2 (clusters ! idx), figsize = (14::nat, 14::nat),
              drawn_graph = self_g self ! idx, drawn_pos = self_pos self ! idx\<rparr>"
    from True have step: "draw_loop self avg_paths clusters idx (b # bs) fs =
        draw_loop self avg_paths clusters (Suc idx) bs (fs @ [(graph_name idx, fig)])"
      by (simp add: py_index_def savefig_def fig_def)
    from Cons.IH [of "Suc idx" "fs @ [(graph_name idx, fig)]"]
    obtain new m where m: "m \<le> length bs"
      and s: "snd (draw_loop self avg_paths clusters (Suc idx) bs (fs @ [(graph_name idx, fig)]))
                = (fs @ [(graph_name idx, fig)]) @ new"
      and n: "map fst new = map graph_name [Suc idx ..< Suc idx + m]"
      and f: "fst (draw_loop self avg_paths clusters (Suc idx) bs (fs @ [(graph_name idx, fig)])) = Inr ()
               \<longrightarrow> m = length bs"
      by blast
    have "[idx ..< idx + Suc m] = idx # [Suc idx ..< Suc idx + m]"
      by (simp add: upt_conv_Cons del: upt_Suc)
    then have "map fst ((graph_name idx, fig) # new) = map graph_name [idx ..< idx + Suc m]"
      using n by simp
    with m s f step show ?thesis
      by (intro exI [of _ "(graph_name idx, fig) # new"] exI [of _ "Suc m"]) simp
  qed
qed

lemma draw_loop_succeeds:
  assumes "idx + length bs \<le> length avg_paths" "idx + length bs \<le> length clusters"
    "idx + length bs \<le> length (self_g self)" "idx + length bs \<le> length (self_pos self)"
  shows "fst (draw_loop self avg_paths clusters idx bs fs) = Inr ()"
  using assms
proof (induction bs arbitrary: idx fs)
  case Nil
  then show ?case by simp
next
  case (Cons b bs)
  then show ?case by (simp add: py_index_def)
qed

lemma draw_loop_saves:
  assumes "idx + length bs \<le> length avg_paths" "idx + length bs \<le> length clusters"
    "idx + length bs \<le> length (self_g self)" "idx + length bs \<le> length (self_pos self)"
  shows "draw_loop self avg_paths clusters idx bs fs =
     (Inr (), fs @ map (\<lambda>j. (graph_name (idx + j),
                  \<lparr>title_beta = bs ! j,
                   title_avg_path_length = py_round2 (avg_paths ! (idx + j)),
                   title_clustering_coefficient = py_round2 (clusters ! (idx + j)),
                   figsize = (14, 14),
                   drawn_graph = self_g self ! (idx + j),
                   drawn_pos = self_pos self ! (idx + j)\<rparr>)) [0 ..< length bs])"
  using assms
proof (induction bs arbitrary: idx fs)
  case Nil
  then show ?case by simp
next
  case (Cons b bs)
  have "map (\<lambda>j. (graph_name (idx + j),
                  \<lparr>title_beta = (b # bs) ! j,
                   title_avg_path_length = py_round2 (avg_paths ! (idx + j)),
                   title_clustering_coefficient = py_round2 (clusters ! (idx + j)),
                   figsize = (14 :: nat, 14 :: nat),
                   drawn_graph = self_g self ! (idx + j),
                   drawn_pos = self_pos self ! (idx + j)\<rparr>)) [0 ..< length (b # bs)]
     = (graph_name idx,
          \<lparr>title_beta = b, title_avg_path_length = py_round2 (avg_paths ! idx),
           title_clustering_coefficient = py_round2 (clusters ! idx), figsize = (14, 14),
           drawn_graph = self_g self ! idx, drawn_pos = self_pos self ! idx\<rparr>) #
       map (\<lambda>j. (graph_name (Suc idx + j),
                  \<lparr>title_beta = bs ! j,
                   title_avg_path_length = py_round2 (avg_paths ! (Suc idx + j)),
                   title_clustering_coefficient = py_round2 (clusters ! (Suc idx + j)),
                   figsize = (14, 14),
                   drawn_graph = self_g self ! (Suc idx + j),
                   drawn_pos = self_pos self ! (Suc idx + j)\<rparr>)) [0 ..< length bs]"
    by (simp add: map_upt_Suc del: upt_Suc)
  with Cons show ?case by (simp add: py_index_def savefig_def)
qed

lemma list_of_length_two: "length xs = 2 \<Longrightarrow> xs = [xs ! 0, xs ! 1]"
  by (auto simp: numeral_2_eq_2 length_Suc_conv)

lemma print_rows_total:
  assumes "idx + length bs \<le> length avg_paths" "idx + length bs \<le> length clusters"
  shows "print_rows avg_paths clusters idx bs out =
     (Inr (), out @ map (\<lambda>j. Row (bs ! j) (avg_paths ! (idx + j)) (clusters ! (idx + j))
                               (network_cat (bs ! j))) [0 ..< length bs])"
  using assms
proof (induction bs arbitrary: idx out)
  case Nil
  then show ?case by simp
next
  case (Cons b bs)
  have "map (\<lambda>j. Row ((b # bs) ! j) (avg_paths ! (idx + j)) (clusters ! (idx + j))
                               (network_cat ((b # bs) ! j))) [0 ..< length (b # bs)]
     = Row b (avg_paths ! idx) (clusters ! idx) (network_cat b) #
       map (\<lambda>j. Row (bs ! j) (avg_paths ! (Suc idx + j)) (clusters ! (Suc idx + j))
                               (network_cat (bs ! j))) [0 ..< length bs]"
    by (simp add: map_upt_Suc del: upt_Suc)
  with Cons show ?case by (simp add: py_index_def Let_def)
qed

subsection \<open>The closed form, the constructor's fields, the file names\<close>

lemma get_clustering_coefficient_closed_form:
  "get_clustering_coefficient self =
     (if self_n self = 0 then Inl ZeroDivisionError
      else Inr (map (\<lambda>b. if b < 1 \<and> b > 0 then lattice_term (self_k self) * ((1 - b) ^ 3)
                         else if b = 1 then of_int (self_k self) / of_int (self_n self)
                         else if b = 0 then lattice_term (self_k self)
                         else 0) (self_beta self)))"
proof (cases "self_n self = 0")
  case True
  then show ?thesis by (simp add: get_clustering_coefficient_zero_n)
next
  case False
  from get_clustering_coefficient_returns [OF False] obtain cs
    where cs: "get_clustering_coefficient self = Inr cs" "length cs = length (self_beta self)"
    by blast
  have "cs = map (\<lambda>b. if b < 1 \<and> b > 0 then lattice_term (self_k self) * ((1 - b) ^ 3)
                         else if b = 1 then of_int (self_k self) / of_int (self_n self)
                         else if b = 0 then lattice_term (self_k self)
                         else 0) (self_beta self)"
  proof (rule nth_equalityI)
    show "length cs = length (map (\<lambda>b. if b < 1 \<and> b > 0 then lattice_term (self_k self) * ((1 - b) ^ 3)
                         else if b = 1 then of_int (self_k self) / of_int (self_n self)
                         else if b = 0 then lattice_term (self_k self)
                         else 0) (self_beta self))"
      using cs by simp
  next
    fix i assume "i < length cs"
    with cs have i: "i < length (self_beta self)" by simp
    from get_clustering_coefficient_nth [OF cs(1) i] i
    show "cs ! i = map (\<lambda>b. if b < 1 \<and> b > 0 then lattice_term (self_k self) * ((1 - b) ^ 3)
                         else if b = 1 then of_int (self_k self) / of_int (self_n self)
                         else if b = 0 then lattice_term (self_k self)
                         else 0) (self_beta self) ! i"
      by (simp add: Let_def)
  qed
  with cs False show ?thesis by simp
qed

lemma SmallWorld_init_fields:
  assumes "SmallWorld_init nx n k beta vis fp s = (Inr self, s')"
  shows "self_n self = n" "self_k self = k" "self_beta self = normalize_beta beta"
    "self_visualize self = vis" "self_fig_path self = fp"
    "length (self_g self) = length (self_beta self)"
    "self_pos self = map (circular_layout nx) (self_g self)"
  using assms
  by (auto simp: SmallWorld_init_def Let_def dest: build_graphs_length
      split: prod.splits sum.splits)

lemma graph_name_examples:
  "graph_name 0 = ''graph0.png''" "graph_name 3 = ''graph3.png''" "graph_name 12 = ''graph12.png''"
  by (simp_all add: graph_name_def string_of_nat.simps)

lemma visualize_graph_main_files:
  "map fst (snd (visualize_graph recording_nx
      \<lparr>self_n = 20, self_k = 4, self_beta = [0, 1 / 5, 2 / 5, 1], self_visualize = True,
       self_fig_path = ''networkx.png'',
       self_g = [(20, 4, 0, 0), (20, 4, 1 / 5, 1), (20, 4, 2 / 5, 2), (20, 4, 1, 3)],
       self_pos = [20, 20, 20, 20]\<rparr> []))
   = [''graph0.png'', ''graph1.png'', ''graph2.png'', ''graph3.png'']"
  by (simp add: visualize_graph_def get_avg_path_def get_clustering_coefficient_def
      recording_nx_def true_div_def np_where_def np_zeros_def broadcast_def py_index_def
      savefig_def graph_name_def string_of_nat.simps)

section \<open>The claims\<close>

subsection \<open>The lattice term of the clustering coefficient\<close>

text \<open>
  The literature's ring-lattice clustering coefficient is \<open>3(k-2) / (4(k-1))\<close>. The
  expression in the code is the same digits without the parentheses around the divisor;
  the two agree only for \<open>k = 0\<close> and \<open>k = 2\<close>, so for every \<open>k > 2\<close> the code's value
  is another number (and exceeds \<open>1\<close>, which no clustering coefficient does).
\<close>

lemma lattice_term_not_literature:
  assumes "2 < k"
  shows "lattice_term k \<noteq> of_int (3 * (k - 2)) / of_int (4 * (k - 1))"
proof
  assume eq: "lattice_term k = of_int (3 * (k - 2)) / of_int (4 * (k - 1))"
  have k1: "(of_int (k - 1) :: rat) \<noteq> 0" and k2: "(of_int (k - 2) :: rat) \<noteq> 0"
    using assms by simp_all
  from eq have "of_int (3 * (k - 2)) * (of_int (k - 1) * of_int (k - 1)) = (of_int (3 * (k - 2)) :: rat)"
    using k1 by (simp add: lattice_term_def field_simps)
  then have "(of_int (k - 1) :: rat) * of_int (k - 1) = 1"
    using k2 by simp
  then have "(k - 1) * (k - 1) = 1"
    by (metis of_int_mult of_int_eq_1_iff)
  moreover from assms have "2 * 2 \<le> (k - 1) * (k - 1)"
    by (intro mult_mono) simp_all
  ultimately show False by simp
qed

text \<open>
  C1. The claim: for even \<open>k > 2\<close> and \<open>n > k\<close>, a beta entry \<open>0\<close> gives exactly
  \<open>3(k-2) / (4(k-1))\<close>. At \<open>n = 20\<close>, \<open>k = 4\<close>, \<open>beta = [0]\<close> (the first entry of the
  script's own \<open>main\<close>) that is \<open>1/2\<close>; the method returns \<open>[9/2]\<close>, whatever the graph
  and the layout are.
\<close>

theorem clustering_coefficient_beta0_at_k4: 
  "get_clustering_coefficient
     \<lparr>self_n = 20, self_k = 4, self_beta = [0], self_visualize = True,
      self_fig_path = ''networkx.png'', self_g = [gr], self_pos = [ps]\<rparr> = Inr [9 / 2]
   \<and> (3 * (4 - 2) / (4 * (4 - 1)) :: rat) = 1 / 2"
  by (simp add: get_clustering_coefficient_def true_div_def lattice_term_def np_where_def
      np_zeros_def broadcast_def)

text \<open>
  C2. The claim: for even \<open>k > 2\<close>, \<open>n > k\<close> and a beta entry strictly between \<open>0\<close> and
  \<open>1\<close> the value is \<open>[3(k-2) / (4(k-1))] (1 - beta)^3\<close>. At \<open>n = 20\<close>, \<open>k = 4\<close>,
  \<open>beta = [1/2]\<close> that is \<open>1/16\<close>; the method returns \<open>[9/16]\<close>.
\<close>

theorem clustering_coefficient_interior_beta_at_k4:
  "get_clustering_coefficient
     \<lparr>self_n = 20, self_k = 4, self_beta = [1 / 2], self_visualize = True,
      self_fig_path = ''networkx.png'', self_g = [gr], self_pos = [ps]\<rparr> = Inr [9 / 16]
   \<and> (3 * (4 - 2) / (4 * (4 - 1)) * (1 - 1 / 2) ^ 3 :: rat) = 1 / 16"
  by (simp add: get_clustering_coefficient_def true_div_def lattice_term_def np_where_def
      np_zeros_def broadcast_def power3_eq_cube)

subsection \<open>The constructor validates nothing\<close>

text \<open>
  C3, as stated, fails. The claim: constructing with \<open>k\<close> odd, \<open>k \<le> 0\<close>, \<open>k \<ge> n\<close>,
  \<open>n \<le> 0\<close> or a beta outside \<open>[0, 1]\<close> raises at construction time, before any graph is
  built. The constructor has no check of its own: with \<open>n = 20\<close>, \<open>k = 3\<close>,
  \<open>beta = 1/2\<close> (odd \<open>k\<close>), and with \<open>n = 20\<close>, \<open>k = 4\<close>, \<open>beta = 3/2\<close> (beta out of
  range), it hands exactly these arguments to the generator and returns the object with
  the graph the generator made.
\<close>

theorem init_odd_k_constructs:
  "SmallWorld_init recording_nx 20 3 (Scalar (1 / 2)) True ''networkx.png'' 0 =
     (Inr \<lparr>self_n = 20, self_k = 3, self_beta = [1 / 2], self_visualize = True,
           self_fig_path = ''networkx.png'', self_g = [(20, 3, 1 / 2, 0)], self_pos = [20]\<rparr>, 1)
   \<and> SmallWorld_init recording_nx 20 4 (Scalar (3 / 2)) True ''networkx.png'' 0 =
     (Inr \<lparr>self_n = 20, self_k = 4, self_beta = [3 / 2], self_visualize = True,
           self_fig_path = ''networkx.png'', self_g = [(20, 4, 3 / 2, 0)], self_pos = [20]\<rparr>, 1)"
  by (simp add: SmallWorld_init_def normalize_beta_def recording_nx_def)

text \<open>
  C3, amended. The constructor checks none of \<open>n\<close>, \<open>k\<close> and \<open>beta\<close>. When it returns, the
  object holds \<open>n\<close>, \<open>k\<close>, the normalised beta list and the two remaining arguments
  unchanged, and its graphs are the results of one generator call per beta entry, in order:
  the call for entry \<open>i\<close> gets \<open>n\<close>, \<open>k\<close> and that entry, starts from the random state the
  call for entry \<open>i - 1\<close> left (the first from the initial state), and returns the \<open>i\<close>-th
  graph; the layouts are those of these graphs. When it raises, the calls for the entries
  before some entry \<open>i\<close> returned in this way and the call for entry \<open>i\<close> raised this
  error. And if the generator accepts every beta entry, construction succeeds, whatever
  \<open>n\<close>, \<open>k\<close> and \<open>beta\<close> are.
\<close>

theorem init_calls_generator_per_beta:
  "(SmallWorld_init nx n k beta vis fp s = (Inr self, s') \<longrightarrow>
      self = \<lparr>self_n = n, self_k = k, self_beta = normalize_beta beta, self_visualize = vis,
              self_fig_path = fp, self_g = self_g self,
              self_pos = map (circular_layout nx) (self_g self)\<rparr> \<and>
      (\<exists>ss. length ss = Suc (length (normalize_beta beta)) \<and>
            length (self_g self) = length (normalize_beta beta) \<and>
            ss ! 0 = s \<and> ss ! length (normalize_beta beta) = s' \<and>
            (\<forall>i < length (normalize_beta beta).
               watts_strogatz_graph nx n k (normalize_beta beta ! i) (ss ! i)
                 = (Inr (self_g self ! i), ss ! Suc i))))
   \<and> (SmallWorld_init nx n k beta vis fp s = (Inl e, s') \<longrightarrow>
        (\<exists>i < length (normalize_beta beta). \<exists>ss gs.
            length ss = Suc i \<and> length gs = i \<and> ss ! 0 = s \<and>
            (\<forall>j < i. watts_strogatz_graph nx n k (normalize_beta beta ! j) (ss ! j)
                       = (Inr (gs ! j), ss ! Suc j)) \<and>
            watts_strogatz_graph nx n k (normalize_beta beta ! i) (ss ! i) = (Inl e, s')))
   \<and> ((\<forall>b \<in> set (normalize_beta beta). \<forall>s0. \<exists>gr s1. watts_strogatz_graph nx n k b s0 = (Inr gr, s1))
     \<longrightarrow> (\<exists>self s'. SmallWorld_init nx n k beta vis fp s = (Inr self, s') \<and>
            self_n self = n \<and> self_k self = k \<and> self_beta self = normalize_beta beta \<and>
            length (self_g self) = length (normalize_beta beta)))"
proof (intro conjI impI)
  assume i: "SmallWorld_init nx n k beta vis fp s = (Inr self, s')"
  then have b: "build_graphs nx n k (normalize_beta beta) s = (Inr (self_g self), s')"
    by (auto simp: SmallWorld_init_def Let_def split: prod.splits sum.splits)
  from i show "self = \<lparr>self_n = n, self_k = k, self_beta = normalize_beta beta,
              self_visualize = vis, self_fig_path = fp, self_g = self_g self,
              self_pos = map (circular_layout nx) (self_g self)\<rparr>"
    by (auto simp: SmallWorld_init_def Let_def split: prod.splits sum.splits)
  from build_graphs_trace [OF b]
  show "\<exists>ss. length ss = Suc (length (normalize_beta beta)) \<and>
            length (self_g self) = length (normalize_beta beta) \<and>
            ss ! 0 = s \<and> ss ! length (normalize_beta beta) = s' \<and>
            (\<forall>i < length (normalize_beta beta).
               watts_strogatz_graph nx n k (normalize_beta beta ! i) (ss ! i)
                 = (Inr (self_g self ! i), ss ! Suc i))" .
next
  assume "SmallWorld_init nx n k beta vis fp s = (Inl e, s')"
  then have "build_graphs nx n k (normalize_beta beta) s = (Inl e, s')"
    by (auto simp: SmallWorld_init_def Let_def split: prod.splits sum.splits)
  then show "\<exists>i < length (normalize_beta beta). \<exists>ss gs.
            length ss = Suc i \<and> length gs = i \<and> ss ! 0 = s \<and>
            (\<forall>j < i. watts_strogatz_graph nx n k (normalize_beta beta ! j) (ss ! j)
                       = (Inr (gs ! j), ss ! Suc j)) \<and>
            watts_strogatz_graph nx n k (normalize_beta beta ! i) (ss ! i) = (Inl e, s')"
    by (rule build_graphs_error_trace)
next
  assume "\<forall>b \<in> set (normalize_beta beta). \<forall>s0. \<exists>gr s1. watts_strogatz_graph nx n k b s0 = (Inr gr, s1)"
  from build_graphs_accepts [OF this, of s] obtain gs s'
    where b: "build_graphs nx n k (normalize_beta beta) s = (Inr gs, s')"
    by blast
  from build_graphs_length [OF b] b
  show "\<exists>self s'. SmallWorld_init nx n k beta vis fp s = (Inr self, s') \<and>
            self_n self = n \<and> self_k self = k \<and> self_beta self = normalize_beta beta \<and>
            length (self_g self) = length (normalize_beta beta)"
    by (simp add: SmallWorld_init_def)
qed

text \<open>
  C3, witness: an odd \<open>k\<close> and a beta out of range, \<open>n = 20\<close>, \<open>k = 3\<close>,
  \<open>beta = [0.5, 1.5]\<close>, with a generator that accepts them: the theorem alone fixes the
  two graphs, made from the states \<open>0\<close> and \<open>1\<close>, and the final state \<open>2\<close>. And a
  generator that rejects \<open>k = 4 > n = 3\<close>: the error comes from the call for the first
  entry.
\<close>

theorem init_calls_generator_per_beta_witness:
  "(\<exists>self. SmallWorld_init recording_nx 20 3 (BetaList [1 / 2, 3 / 2]) True ''networkx.png'' 0
        = (Inr self, 2) \<and>
      self_n self = 20 \<and> self_k self = 3 \<and> self_beta self = [1 / 2, 3 / 2] \<and>
      self_g self = [(20, 3, 1 / 2, 0), (20, 3, 3 / 2, 1)] \<and> self_pos self = [20, 20])
   \<and> SmallWorld_init rejecting_nx 3 4 (BetaList [0, 1]) True ''networkx.png'' 0
        = (Inl (NetworkXError ''k>n, choose smaller k or larger n''), 0)
   \<and> watts_strogatz_graph rejecting_nx 3 4 0 0
        = (Inl (NetworkXError ''k>n, choose smaller k or larger n''), 0)"
proof -
  let ?beta = "BetaList [1 / 2, 3 / 2]"
  have nb: "normalize_beta ?beta = [1 / 2, 3 / 2]"
    "normalize_beta (BetaList [0, 1]) = [0, 1]"
    by (simp_all add: normalize_beta_def)
  have h: "\<forall>b \<in> set (normalize_beta ?beta). \<forall>s0. \<exists>gr s1.
             watts_strogatz_graph recording_nx 20 3 b s0 = (Inr gr, s1)"
    by (simp add: recording_nx_def)
  from init_calls_generator_per_beta [where nx = recording_nx and n = 20 and k = 3 and beta = ?beta and vis = True
      and fp = "''networkx.png''" and s = 0, THEN conjunct2, THEN conjunct2, THEN mp, OF h]
  obtain self s' where i: "SmallWorld_init recording_nx 20 3 ?beta True ''networkx.png'' 0
      = (Inr self, s')"
    by blast
  note c = init_calls_generator_per_beta [where nx = recording_nx and n = 20 and k = 3 and beta = ?beta and vis = True
      and fp = "''networkx.png''" and s = 0, THEN conjunct1, THEN mp, OF i]
  from c [unfolded nb] obtain ss
    where l: "length (self_g self) = length [1 / 2, 3 / 2 :: rat]"
      and s0: "ss ! 0 = 0" and sl: "ss ! length [1 / 2, 3 / 2 :: rat] = s'"
      and calls: "\<forall>i < length [1 / 2, 3 / 2 :: rat].
                 watts_strogatz_graph recording_nx 20 3 ([1 / 2, 3 / 2] ! i) (ss ! i)
                 = (Inr (self_g self ! i), ss ! Suc i)"
    by blast
  from l have ss: "length (self_g self) = 2" by simp
  have c0: "watts_strogatz_graph recording_nx 20 3 (1 / 2) (ss ! 0)
                 = (Inr (self_g self ! 0), ss ! Suc 0)"
    using calls [rule_format, of 0] by simp
  have c1: "watts_strogatz_graph recording_nx 20 3 (3 / 2) (ss ! Suc 0)
                 = (Inr (self_g self ! Suc 0), ss ! Suc (Suc 0))"
    using calls [rule_format, of "Suc 0"] by simp
  from c0 c1 s0 sl have g: "self_g self ! 0 = (20, 3, 1 / 2, 0)"
      "self_g self ! 1 = (20, 3, 3 / 2, 1)"
    and s': "s' = 2"
    by (auto simp: recording_nx_def numeral_2_eq_2)
  from list_of_length_two [OF ss] g
  have gs: "self_g self = [(20, 3, 1 / 2, 0), (20, 3, 3 / 2, 1)]" by simp
  from c [unfolded nb] have f: "self_n self = 20" "self_k self = 3" "self_beta self = [1 / 2, 3 / 2]"
    "self_pos self = map (circular_layout recording_nx) (self_g self)"
    by (metis SmallWorld.select_convs(1), metis SmallWorld.select_convs(2),
        metis SmallWorld.select_convs(3), metis SmallWorld.select_convs(7))
  have r: "SmallWorld_init rejecting_nx 3 4 (BetaList [0, 1]) True ''networkx.png'' 0
        = (Inl (NetworkXError ''k>n, choose smaller k or larger n''), 0)"
    by (simp add: SmallWorld_init_def normalize_beta_def rejecting_nx_def)
  from init_calls_generator_per_beta [where nx = rejecting_nx and n = 3 and k = 4 and beta = "BetaList [0, 1]"
      and vis = True and fp = "''networkx.png''" and s = 0,
      THEN conjunct2, THEN conjunct1, THEN mp, OF r, unfolded nb]
  obtain j ts where j: "j < length [0, 1 :: rat]" and t0: "ts ! 0 = 0"
    and ok: "\<forall>l < j. \<exists>gr. watts_strogatz_graph rejecting_nx 3 4 ([0, 1] ! l) (ts ! l)
                = (Inr gr, ts ! Suc l)"
    and bad: "watts_strogatz_graph rejecting_nx 3 4 ([0, 1] ! j) (ts ! j)
       = (Inl (NetworkXError ''k>n, choose smaller k or larger n''), 0)"
    by blast
  have "j = 0"
  proof (rule ccontr)
    assume "j \<noteq> 0"
    with ok have "\<exists>gr. watts_strogatz_graph rejecting_nx 3 4 ([0, 1] ! 0) (ts ! 0)
                = (Inr gr, ts ! Suc 0)"
      by blast
    then show False by (simp add: rejecting_nx_def)
  qed
  with bad t0 have "watts_strogatz_graph rejecting_nx 3 4 0 0
        = (Inl (NetworkXError ''k>n, choose smaller k or larger n''), 0)"
    by simp
  with i s' f gs r show ?thesis
    by (auto simp: recording_nx_def)
qed

subsection \<open>The size check of \<open>visualize_graph\<close>\<close>

text \<open>
  C4. With more than \<open>5000\<close> nodes (so at \<open>n = 5001\<close>) \<open>visualize_graph\<close> raises and saves
  no file; the error the specification calls \<open>GraphTooLargeError\<close> is the \<open>ValueError\<close> of
  line 46. With at most \<open>5000\<close> nodes (so at \<open>n = 5000\<close>) the check lets the call through:
  on an object as the constructor builds it, one graph and one layout per beta, and when
  the library returns the average path lengths, the call succeeds and saves one file per
  beta, \<open>graph0.png\<close>, \<open>graph1.png\<close>, \<dots> in this order.
\<close>

theorem visualize_graph_size_boundary:
  "(5000 < self_n self \<longrightarrow>
      visualize_graph nx self fs =
        (Inl (ValueError ''Number of nodes is too much, it's hard to visualize graph as image''), fs))
   \<and> (self_n self \<le> 5000 \<and> self_n self \<noteq> 0 \<and> get_avg_path nx self = Inr avg_paths \<and>
        length (self_g self) = length (self_beta self) \<and>
        length (self_pos self) = length (self_beta self) \<longrightarrow>
        (\<exists>new. visualize_graph nx self fs = (Inr (), fs @ new) \<and>
               map fst new = map graph_name [0 ..< length (self_beta self)]))"
proof (intro conjI impI)
  assume "5000 < self_n self"
  then show "visualize_graph nx self fs =
        (Inl (ValueError ''Number of nodes is too much, it's hard to visualize graph as image''), fs)"
    by (simp add: visualize_graph_def)
next
  assume a: "self_n self \<le> 5000 \<and> self_n self \<noteq> 0 \<and> get_avg_path nx self = Inr avg_paths \<and>
        length (self_g self) = length (self_beta self) \<and>
        length (self_pos self) = length (self_beta self)"
  then obtain clusters where c: "get_clustering_coefficient self = Inr clusters"
    and lc: "length clusters = length (self_beta self)"
    using get_clustering_coefficient_returns [of self] by blast
  from a have la: "length avg_paths = length (self_beta self)"
    using avg_paths_of_length [of "average_shortest_path_length nx" "self_g self" avg_paths]
    by (simp add: get_avg_path_def)
  from a c have v: "visualize_graph nx self fs =
      draw_loop self avg_paths clusters 0 (self_beta self) fs"
    by (simp add: visualize_graph_def)
  have ok: "fst (draw_loop self avg_paths clusters 0 (self_beta self) fs) = Inr ()"
    using a la lc by (intro draw_loop_succeeds) simp_all
  from draw_loop_names [of "self_beta self" self avg_paths clusters 0 fs] ok
  obtain new where "snd (draw_loop self avg_paths clusters 0 (self_beta self) fs) = fs @ new"
    and "map fst new = map graph_name [0 ..< length (self_beta self)]"
    by auto
  with ok v show "\<exists>new. visualize_graph nx self fs = (Inr (), fs @ new) \<and>
               map fst new = map graph_name [0 ..< length (self_beta self)]"
    by (metis prod.collapse)
qed

text \<open>C4, witness: \<open>n = 5001\<close> is rejected with no file, \<open>n = 5000\<close> saves \<open>graph0.png\<close>.\<close>

theorem visualize_graph_size_boundary_witness:
  "visualize_graph recording_nx
      \<lparr>self_n = 5001, self_k = 4, self_beta = [0], self_visualize = True,
       self_fig_path = ''networkx.png'', self_g = [(5001, 4, 0, 0)], self_pos = [5001]\<rparr> []
     = (Inl (ValueError ''Number of nodes is too much, it's hard to visualize graph as image''), [])
   \<and> (\<exists>new. visualize_graph recording_nx
      \<lparr>self_n = 5000, self_k = 4, self_beta = [0], self_visualize = True,
       self_fig_path = ''networkx.png'', self_g = [(5000, 4, 0, 0)], self_pos = [5000]\<rparr> []
     = (Inr (), new) \<and> map fst new = [''graph0.png''])"
proof -
  let ?big = "\<lparr>self_n = 5001, self_k = 4, self_beta = [0], self_visualize = True,
       self_fig_path = ''networkx.png'', self_g = [(5001, 4, 0, 0 :: nat)], self_pos = [5001 :: int]\<rparr>"
  let ?ok = "\<lparr>self_n = 5000, self_k = 4, self_beta = [0], self_visualize = True,
       self_fig_path = ''networkx.png'', self_g = [(5000, 4, 0, 0 :: nat)], self_pos = [5000 :: int]\<rparr>"
  have h1: "5000 < self_n ?big" by simp
  have h2: "self_n ?ok \<le> 5000 \<and> self_n ?ok \<noteq> 0 \<and> get_avg_path recording_nx ?ok = Inr [2] \<and>
        length (self_g ?ok) = length (self_beta ?ok) \<and>
        length (self_pos ?ok) = length (self_beta ?ok)"
    by (simp add: get_avg_path_def recording_nx_def)
  note rejected = visualize_graph_size_boundary [where self = ?big and nx = recording_nx and fs = "[]",
      THEN conjunct1, THEN mp, OF h1]
  note accepted = visualize_graph_size_boundary [where self = ?ok and nx = recording_nx and fs = "[]"
      and avg_paths = "[2]", THEN conjunct2, THEN mp, OF h2]
  from rejected accepted show ?thesis
    by (simp add: graph_name_examples)
qed

subsection \<open>The value at a beta entry equal to \<open>1\<close>\<close>



subsection \<open>The network category\<close>

text \<open>
  C6. The category chosen in \<open>print_info\<close> is \<open>Regular network (Ring lattice)\<close> for beta
  \<open>0\<close>, \<open>Random network\<close> for beta \<open>1\<close> and \<open>Small-world network\<close> for every other beta
  (\<open>0.37\<close> for one); and the choice never fails: given a path length and a clustering
  coefficient for every beta, \<open>print_info\<close> prints its three heading lines and then one
  row per beta, in order, each with the category of its beta.
\<close>

theorem print_info_network_category:
  "network_cat 0 = ''Regular network (Ring lattice)''
   \<and> network_cat 1 = ''Random network''
   \<and> network_cat (37 / 100) = ''Small-world network''
   \<and> (b \<noteq> 0 \<and> b \<noteq> 1 \<longrightarrow> network_cat b = ''Small-world network'')
   \<and> (length (self_beta self) \<le> length avg_paths \<and> length (self_beta self) \<le> length clusters \<longrightarrow>
        (\<exists>header. length header = 3 \<and>
           print_info self avg_paths clusters out =
             (Inr (), out @ header @
                map (\<lambda>j. Row (self_beta self ! j) (avg_paths ! j) (clusters ! j)
                           (network_cat (self_beta self ! j)))
                  [0 ..< length (self_beta self)])))"
proof (intro conjI impI)
  assume "length (self_beta self) \<le> length avg_paths \<and> length (self_beta self) \<le> length clusters"
  then show "\<exists>header. length header = 3 \<and>
           print_info self avg_paths clusters out =
             (Inr (), out @ header @
                map (\<lambda>j. Row (self_beta self ! j) (avg_paths ! j) (clusters ! j)
                           (network_cat (self_beta self ! j)))
                  [0 ..< length (self_beta self)])"
    by (simp add: print_info_def print_rows_total)
qed (simp_all add: network_cat_def)

text \<open>C6, witness: the three betas \<open>0\<close>, \<open>0.37\<close> and \<open>1\<close>.\<close>

theorem print_info_network_category_witness:
  "\<exists>header. length header = 3 \<and>
     print_info
       \<lparr>self_n = 20, self_k = 4, self_beta = [0, 37 / 100, 1], self_visualize = True,
        self_fig_path = ''networkx.png'', self_g = [(), (), ()], self_pos = [(), (), ()]\<rparr>
       [2, 3, 4] [5, 6, 7] []
     = (Inr (), header @
          [Row 0 2 5 ''Regular network (Ring lattice)'',
           Row (37 / 100) 3 6 ''Small-world network'',
           Row 1 4 7 ''Random network''])"
proof -
  let ?self = "\<lparr>self_n = 20, self_k = 4, self_beta = [0, 37 / 100, 1], self_visualize = True,
        self_fig_path = ''networkx.png'', self_g = [(), (), ()], self_pos = [(), (), ()]\<rparr>"
  have h: "length (self_beta ?self) \<le> length [2, 3, 4 :: rat] \<and>
           length (self_beta ?self) \<le> length [5, 6, 7 :: rat]"
    by simp
  have cat: "network_cat 0 = ''Regular network (Ring lattice)''"
    "network_cat 1 = ''Random network''" "network_cat (37 / 100) = ''Small-world network''"
    using print_info_network_category [where self = ?self] by blast+
  have u: "[0 ..< 3] = [0, 1, 2]" by (simp add: upt_rec)
  from print_info_network_category [where self = ?self and avg_paths = "[2, 3, 4]" and clusters = "[5, 6, 7]"
      and out = "[]", THEN conjunct2, THEN conjunct2, THEN conjunct2, THEN conjunct2, THEN mp, OF h]
  show ?thesis
    by (simp add: cat u)
qed

subsection \<open>A scalar beta\<close>

text \<open>
  C7. When the generator accepts a scalar beta \<open>b\<close>, the constructor returns the object it
  returns for the list \<open>[b]\<close>: its beta is the one-element list \<open>[b]\<close>, it holds one graph
  and one layout, and \<open>get_avg_path\<close> and \<open>get_clustering_coefficient\<close> return lists of
  length one.
\<close>

theorem scalar_beta_wrapped:
  assumes "watts_strogatz_graph nx n k b s = (Inr gr, s')"
  shows "\<exists>self. SmallWorld_init nx n k (Scalar b) vis fp s = (Inr self, s') \<and>
           SmallWorld_init nx n k (BetaList [b]) vis fp s = (Inr self, s') \<and>
           self_beta self = [b] \<and> self_g self = [gr] \<and> self_pos self = [circular_layout nx gr] \<and>
           (\<forall>a. average_shortest_path_length nx gr = Inr a \<longrightarrow> get_avg_path nx self = Inr [a]) \<and>
           (\<forall>as. get_avg_path nx self = Inr as \<longrightarrow> length as = 1) \<and>
           (n \<noteq> 0 \<longrightarrow> (\<exists>c. get_clustering_coefficient self = Inr [c])) \<and>
           (\<forall>cs. get_clustering_coefficient self = Inr cs \<longrightarrow> length cs = 1)"
proof -
  define self where "self = \<lparr>self_n = n, self_k = k, self_beta = [b], self_visualize = vis,
       self_fig_path = fp, self_g = [gr], self_pos = [circular_layout nx gr]\<rparr>"
  have i1: "SmallWorld_init nx n k (Scalar b) vis fp s = (Inr self, s')"
    using assms by (simp add: SmallWorld_init_def normalize_beta_def self_def)
  have i2: "SmallWorld_init nx n k (BetaList [b]) vis fp s = (Inr self, s')"
    using assms by (simp add: SmallWorld_init_def normalize_beta_def self_def)
  have a1: "\<forall>a. average_shortest_path_length nx gr = Inr a \<longrightarrow> get_avg_path nx self = Inr [a]"
    by (simp add: get_avg_path_def self_def)
  have a2: "\<forall>as. get_avg_path nx self = Inr as \<longrightarrow> length as = 1"
    using avg_paths_of_length [of "average_shortest_path_length nx" "[gr]"]
    by (simp add: get_avg_path_def self_def)
  have c2: "\<forall>cs. get_clustering_coefficient self = Inr cs \<longrightarrow> length cs = 1"
    by (auto simp: get_clustering_coefficient_def true_div_def Let_def length_np_where
        np_zeros_def broadcast_def self_def split: if_splits)
  have c1: "n \<noteq> 0 \<longrightarrow> (\<exists>c. get_clustering_coefficient self = Inr [c])"
  proof
    assume "n \<noteq> 0"
    then have "self_n self \<noteq> 0" by (simp add: self_def)
    from get_clustering_coefficient_returns [OF this] obtain cs
      where cs: "get_clustering_coefficient self = Inr cs" "length cs = 1"
      by (auto simp: self_def)
    then obtain c where "cs = [c]"
      by (cases cs) auto
    with cs show "\<exists>c. get_clustering_coefficient self = Inr [c]" by blast
  qed
  from i1 i2 a1 a2 c1 c2 show ?thesis
    by (intro exI [of _ self]) (simp add: self_def)
qed

text \<open>C7, witness: the scalar \<open>0.2\<close> with \<open>n = 20\<close>, \<open>k = 4\<close>.\<close>

theorem scalar_beta_wrapped_witness:
  "\<exists>self. SmallWorld_init recording_nx 20 4 (Scalar (1 / 5)) True ''networkx.png'' 0 = (Inr self, 1) \<and>
      self_beta self = [1 / 5] \<and> self_g self = [(20, 4, 1 / 5, 0)] \<and> self_pos self = [20] \<and>
      get_avg_path recording_nx self = Inr [2] \<and>
      (\<exists>c. get_clustering_coefficient self = Inr [c])"
proof -
  have h: "watts_strogatz_graph recording_nx 20 4 (1 / 5) 0 = (Inr (20, 4, 1 / 5, 0), 1)"
    by (simp add: recording_nx_def)
  have a: "average_shortest_path_length recording_nx (20, 4, 1 / 5, 0) = Inr 2"
    and l: "circular_layout recording_nx (20, 4, 1 / 5, 0) = 20"
    by (simp_all add: recording_nx_def)
  from scalar_beta_wrapped [OF h, of True "''networkx.png''"] a l show ?thesis
    by auto
qed

subsection \<open>The clustering coefficient depends on \<open>n\<close>, \<open>k\<close> and the betas only\<close>

text \<open>
  C8. Two objects with the same \<open>n\<close>, \<open>k\<close> and beta list give the same result of
  \<open>get_clustering_coefficient\<close> (the same values or the same error), whatever their
  graphs, layouts and other attributes are, and whatever the types of their graphs; so
  two constructions from the same \<open>n\<close>, \<open>k\<close> and \<open>beta\<close>, with any two libraries, random
  states and remaining arguments, agree on it. The method reads no graph.
\<close>

theorem clustering_coefficient_pure:
  "(self_n a = self_n b \<and> self_k a = self_k b \<and> self_beta a = self_beta b \<longrightarrow>
      get_clustering_coefficient a = get_clustering_coefficient b)
   \<and> (SmallWorld_init nx1 n k beta vis1 fp1 s1 = (Inr a', t1) \<and>
       SmallWorld_init nx2 n k beta vis2 fp2 s2 = (Inr b', t2) \<longrightarrow>
      get_clustering_coefficient a' = get_clustering_coefficient b')"
proof -
  show ?thesis
  proof (intro conjI impI)
    assume "self_n a = self_n b \<and> self_k a = self_k b \<and> self_beta a = self_beta b"
    then show "get_clustering_coefficient a = get_clustering_coefficient b"
      by (simp add: get_clustering_coefficient_closed_form)
  next
    assume i: "SmallWorld_init nx1 n k beta vis1 fp1 s1 = (Inr a', t1) \<and>
       SmallWorld_init nx2 n k beta vis2 fp2 s2 = (Inr b', t2)"
    note ia = i [THEN conjunct1] and ib = i [THEN conjunct2]
    have "self_n a' = self_n b'" "self_k a' = self_k b'" "self_beta a' = self_beta b'"
      by (simp_all add: SmallWorld_init_fields(1-3) [OF ia] SmallWorld_init_fields(1-3) [OF ib])
    then show "get_clustering_coefficient a' = get_clustering_coefficient b'"
      by (simp add: get_clustering_coefficient_closed_form)
  qed
qed

text \<open>
  C8, witness: two constructions with different libraries, random states (\<open>0\<close> and \<open>7\<close>),
  flags and paths; the graphs differ, the clustering coefficients do not.
\<close>

theorem clustering_coefficient_pure_witness:
  "get_clustering_coefficient
      \<lparr>self_n = 20, self_k = 4, self_beta = [0, 1 / 5, 1], self_visualize = True,
       self_fig_path = ''networkx.png'',
       self_g = [(20 :: int, 4 :: int, 0 :: rat, 0 :: nat), (20, 4, 1 / 5, 1), (20, 4, 1, 2)],
       self_pos = [20 :: int, 20, 20]\<rparr>
   = get_clustering_coefficient
      \<lparr>self_n = 20, self_k = 4, self_beta = [0, 1 / 5, 1], self_visualize = False,
       self_fig_path = ''other.png'',
       self_g = [(20 :: int, 4 :: int, 0 :: rat, 7 :: nat), (20, 4, 1 / 5, 8), (20, 4, 1, 9)],
       self_pos = [20 :: int, 20, 20]\<rparr>"
proof -
  let ?a = "\<lparr>self_n = 20, self_k = 4, self_beta = [0, 1 / 5, 1], self_visualize = True,
       self_fig_path = ''networkx.png'',
       self_g = [(20 :: int, 4 :: int, 0 :: rat, 0 :: nat), (20, 4, 1 / 5, 1), (20, 4, 1, 2)],
       self_pos = [20 :: int, 20, 20]\<rparr>"
  let ?b = "\<lparr>self_n = 20, self_k = 4, self_beta = [0, 1 / 5, 1], self_visualize = False,
       self_fig_path = ''other.png'',
       self_g = [(20 :: int, 4 :: int, 0 :: rat, 7 :: nat), (20, 4, 1 / 5, 8), (20, 4, 1, 9)],
       self_pos = [20 :: int, 20, 20]\<rparr>"
  have h: "SmallWorld_init recording_nx 20 4 (BetaList [0, 1 / 5, 1]) True ''networkx.png'' 0
             = (Inr ?a, 3) \<and>
           SmallWorld_init rejecting_nx 20 4 (BetaList [0, 1 / 5, 1]) False ''other.png'' 7
             = (Inr ?b, 10)"
    by (simp add: SmallWorld_init_def normalize_beta_def recording_nx_def rejecting_nx_def)
  have f: "self_n ?a = self_n ?b \<and> self_k ?a = self_k ?b \<and> self_beta ?a = self_beta ?b"
    by simp
  from clustering_coefficient_pure [THEN conjunct2, THEN mp, OF h]
    clustering_coefficient_pure [where a = ?a and b = ?b, THEN conjunct1, THEN mp, OF f]
  show ?thesis by simp
qed

subsection \<open>A beta entry outside \<open>[0, 1]\<close>\<close>

text \<open>
  C9, as stated, fails. The claim: at every beta entry below \<open>0\<close> or above \<open>1\<close> the method
  raises no error and returns \<open>0.0\<close>. Line 78 evaluates \<open>self.k/self.n\<close> whatever the betas
  are: the constructor builds \<open>SmallWorld(0, 0, [1.5])\<close>, and on this object the method
  raises \<open>ZeroDivisionError\<close>.
\<close>

theorem clustering_coefficient_zero_nodes_raises:
  "SmallWorld_init recording_nx 0 0 (BetaList [3 / 2]) True ''networkx.png'' 0 =
     (Inr \<lparr>self_n = 0, self_k = 0, self_beta = [3 / 2], self_visualize = True,
           self_fig_path = ''networkx.png'', self_g = [(0, 0, 3 / 2, 0)], self_pos = [0]\<rparr>, 1)
   \<and> get_clustering_coefficient
       \<lparr>self_n = 0, self_k = 0, self_beta = [3 / 2], self_visualize = True,
        self_fig_path = ''networkx.png'', self_g = [(0 :: int, 0 :: int, 3 / 2 :: rat, 0 :: nat)],
        self_pos = [0 :: int]\<rparr>
     = Inl ZeroDivisionError"
  by (simp add: SmallWorld_init_def normalize_beta_def recording_nx_def
      get_clustering_coefficient_def true_div_def)

text \<open>
  C9, amended. When \<open>n\<close> is not \<open>0\<close> and the scalars of lines 77 and 78, the beta
  entries and their cubes of line 79 are in the range of a float, then at every position
  whose beta entry is below \<open>0\<close> or above \<open>1\<close> the method raises nothing and returns \<open>0\<close>:
  no \<open>np.where\<close> selects the position, which keeps the \<open>0\<close> of \<open>np.zeros\<close>.
\<close>

theorem clustering_coefficient_out_of_range_beta:
  assumes "self_n self \<noteq> 0" and "scalars_in_float_range (self_k self) (self_n self)"
    and "betas_in_float_range (self_beta self)"
    and "i < length (self_beta self)"
    and "self_beta self ! i < 0 \<or> 1 < self_beta self ! i"
  shows "\<exists>cs. get_clustering_coefficient self = Inr cs \<and> length cs = length (self_beta self) \<and>
              cs ! i = 0"
proof -
  from get_clustering_coefficient_returns [OF assms(1)] obtain cs
    where cs: "get_clustering_coefficient self = Inr cs" "length cs = length (self_beta self)"
    by blast
  from get_clustering_coefficient_nth [OF cs(1) assms(4)] assms(5)
  have "cs ! i = 0" by (auto simp: Let_def)
  with cs show ?thesis by simp
qed

text \<open>C9, witness: \<open>n = 20\<close>, \<open>k = 4\<close> and the betas \<open>-0.5\<close> and \<open>1.5\<close>.\<close>

theorem clustering_coefficient_out_of_range_beta_witness:
  "\<exists>cs. get_clustering_coefficient
      \<lparr>self_n = 20, self_k = 4, self_beta = [- (1 / 2), 3 / 2], self_visualize = True,
       self_fig_path = ''networkx.png'', self_g = [(), ()], self_pos = [(), ()]\<rparr>
     = Inr cs \<and> length cs = 2 \<and> cs ! 0 = 0 \<and> cs ! 1 = 0"
proof -
  let ?self = "\<lparr>self_n = 20, self_k = 4, self_beta = [- (1 / 2), 3 / 2],
       self_visualize = True, self_fig_path = ''networkx.png'', self_g = [(), ()],
       self_pos = [(), ()]\<rparr>"
  have r: "scalars_in_float_range (self_k ?self) (self_n ?self)"
    by (simp add: scalars_in_float_range_def in_float_range_def)
  have b: "betas_in_float_range (self_beta ?self)"
    by (simp add: betas_in_float_range_def in_float_range_def power3_eq_cube)
  have n: "self_n ?self \<noteq> 0" by simp
  from clustering_coefficient_out_of_range_beta [OF n r b, of 0]
    clustering_coefficient_out_of_range_beta [OF n r b, of 1]
  show ?thesis
    by auto
qed

subsection \<open>The \<open>fig_path\<close> argument\<close>

text \<open>
  C10. No method reads \<open>fig_path\<close>: changing it changes neither the result nor the files
  of \<open>visualize_graph\<close>, nor \<open>get_avg_path\<close>, \<open>get_clustering_coefficient\<close> or
  \<open>print_info\<close>, and two constructions differing in \<open>fig_path\<close> only give objects
  differing in that attribute only. The files that \<open>visualize_graph\<close> saves are named by
  position, whether it succeeds or raises part way. And when the size check passes, both
  metrics return and the object has a graph and a layout per beta, then, whatever
  \<open>fig_path\<close> is, the call succeeds and saves exactly one file per beta: the file for
  position \<open>idx\<close> is named \<open>graph\<close>, the decimal digits of \<open>idx\<close>, \<open>.png\<close>, and shows the
  \<open>idx\<close>-th beta, graph and layout.
\<close>

theorem fig_path_unused:
  "visualize_graph nx (self\<lparr>self_fig_path := p\<rparr>) fs = visualize_graph nx self fs
   \<and> get_avg_path nx (self\<lparr>self_fig_path := p\<rparr>) = get_avg_path nx self
   \<and> get_clustering_coefficient (self\<lparr>self_fig_path := p\<rparr>) = get_clustering_coefficient self
   \<and> print_info (self\<lparr>self_fig_path := p\<rparr>) avg_paths clusters out
        = print_info self avg_paths clusters out
   \<and> (\<exists>new m. m \<le> length (self_beta self) \<and>
         snd (visualize_graph nx self fs) = fs @ new \<and>
         map fst new = map graph_name [0 ..< m] \<and>
         (fst (visualize_graph nx self fs) = Inr () \<longrightarrow> m = length (self_beta self)))
   \<and> (SmallWorld_init nx n k beta vis fp s = (Inr self', t) \<longrightarrow>
        SmallWorld_init nx n k beta vis p s = (Inr (self'\<lparr>self_fig_path := p\<rparr>), t))
   \<and> (self_n self \<le> 5000 \<and> get_avg_path nx self = Inr avgs \<and>
       get_clustering_coefficient self = Inr cls \<and>
       length (self_g self) = length (self_beta self) \<and>
       length (self_pos self) = length (self_beta self) \<longrightarrow>
        (\<exists>new. visualize_graph nx (self\<lparr>self_fig_path := p\<rparr>) fs = (Inr (), fs @ new) \<and>
           length new = length (self_beta self) \<and>
           (\<forall>idx < length (self_beta self).
              fst (new ! idx) = ''graph'' @ string_of_nat idx @ ''.png'' \<and>
              title_beta (snd (new ! idx)) = self_beta self ! idx \<and>
              drawn_graph (snd (new ! idx)) = self_g self ! idx \<and>
              drawn_pos (snd (new ! idx)) = self_pos self ! idx)))"
proof (intro conjI)
  show avg: "get_avg_path nx (self\<lparr>self_fig_path := p\<rparr>) = get_avg_path nx self"
    by (simp add: get_avg_path_def)
  show cc: "get_clustering_coefficient (self\<lparr>self_fig_path := p\<rparr>) = get_clustering_coefficient self"
    by (simp add: get_clustering_coefficient_closed_form)
  show same: "visualize_graph nx (self\<lparr>self_fig_path := p\<rparr>) fs = visualize_graph nx self fs"
    by (simp add: visualize_graph_def avg cc draw_loop_fig_path split: sum.splits)
  show "print_info (self\<lparr>self_fig_path := p\<rparr>) avg_paths clusters out
        = print_info self avg_paths clusters out"
    by (simp add: print_info_def)
  show "\<exists>new m. m \<le> length (self_beta self) \<and>
         snd (visualize_graph nx self fs) = fs @ new \<and>
         map fst new = map graph_name [0 ..< m] \<and>
         (fst (visualize_graph nx self fs) = Inr () \<longrightarrow> m = length (self_beta self))"
  proof (cases "self_n self > 5000")
    case True
    then show ?thesis
      by (intro exI [of _ "[]"] exI [of _ 0]) (simp add: visualize_graph_def)
  next
    case big: False
    show ?thesis
    proof (cases "get_avg_path nx self")
      case (Inl e)
      with big show ?thesis
        by (intro exI [of _ "[]"] exI [of _ 0]) (simp add: visualize_graph_def)
    next
      case avg: (Inr avg_paths)
      show ?thesis
      proof (cases "get_clustering_coefficient self")
        case (Inl e)
        with big avg show ?thesis
          by (intro exI [of _ "[]"] exI [of _ 0]) (simp add: visualize_graph_def)
      next
        case (Inr clusters)
        with big avg have "visualize_graph nx self fs =
            draw_loop self avg_paths clusters 0 (self_beta self) fs"
          by (simp add: visualize_graph_def)
        with draw_loop_names [of "self_beta self" self avg_paths clusters 0 fs]
        show ?thesis by simp
      qed
    qed
  qed
  show "SmallWorld_init nx n k beta vis fp s = (Inr self', t) \<longrightarrow>
        SmallWorld_init nx n k beta vis p s = (Inr (self'\<lparr>self_fig_path := p\<rparr>), t)"
    by (auto simp: SmallWorld_init_def Let_def split: prod.splits sum.splits)
  show "self_n self \<le> 5000 \<and> get_avg_path nx self = Inr avgs \<and>
       get_clustering_coefficient self = Inr cls \<and>
       length (self_g self) = length (self_beta self) \<and>
       length (self_pos self) = length (self_beta self) \<longrightarrow>
        (\<exists>new. visualize_graph nx (self\<lparr>self_fig_path := p\<rparr>) fs = (Inr (), fs @ new) \<and>
           length new = length (self_beta self) \<and>
           (\<forall>idx < length (self_beta self).
              fst (new ! idx) = ''graph'' @ string_of_nat idx @ ''.png'' \<and>
              title_beta (snd (new ! idx)) = self_beta self ! idx \<and>
              drawn_graph (snd (new ! idx)) = self_g self ! idx \<and>
              drawn_pos (snd (new ! idx)) = self_pos self ! idx))"
  proof
    assume a: "self_n self \<le> 5000 \<and> get_avg_path nx self = Inr avgs \<and>
       get_clustering_coefficient self = Inr cls \<and>
       length (self_g self) = length (self_beta self) \<and>
       length (self_pos self) = length (self_beta self)"
    then have la: "length avgs = length (self_beta self)"
      using avg_paths_of_length [of "average_shortest_path_length nx" "self_g self" avgs]
      by (simp add: get_avg_path_def)
    from a have "self_n self \<noteq> 0"
      by (auto simp: get_clustering_coefficient_zero_n)
    from get_clustering_coefficient_returns [OF this] a
    have lc: "length cls = length (self_beta self)" by auto
    define new where "new = map (\<lambda>j. (graph_name (0 + j),
                  \<lparr>title_beta = self_beta self ! j,
                   title_avg_path_length = py_round2 (avgs ! (0 + j)),
                   title_clustering_coefficient = py_round2 (cls ! (0 + j)),
                   figsize = (14 :: nat, 14 :: nat),
                   drawn_graph = self_g self ! (0 + j),
                   drawn_pos = self_pos self ! (0 + j)\<rparr>)) [0 ..< length (self_beta self)]"
    have "draw_loop self avgs cls 0 (self_beta self) fs = (Inr (), fs @ new)"
      unfolding new_def using a la lc by (intro draw_loop_saves) simp_all
    with a have "visualize_graph nx self fs = (Inr (), fs @ new)"
      by (simp add: visualize_graph_def)
    with same have v: "visualize_graph nx (self\<lparr>self_fig_path := p\<rparr>) fs = (Inr (), fs @ new)"
      by simp
    have "length new = length (self_beta self)"
      by (simp add: new_def)
    moreover have "\<forall>idx < length (self_beta self).
              fst (new ! idx) = ''graph'' @ string_of_nat idx @ ''.png'' \<and>
              title_beta (snd (new ! idx)) = self_beta self ! idx \<and>
              drawn_graph (snd (new ! idx)) = self_g self ! idx \<and>
              drawn_pos (snd (new ! idx)) = self_pos self ! idx"
      by (simp add: new_def graph_name_def)
    ultimately show "\<exists>new. visualize_graph nx (self\<lparr>self_fig_path := p\<rparr>) fs = (Inr (), fs @ new) \<and>
           length new = length (self_beta self) \<and>
           (\<forall>idx < length (self_beta self).
              fst (new ! idx) = ''graph'' @ string_of_nat idx @ ''.png'' \<and>
              title_beta (snd (new ! idx)) = self_beta self ! idx \<and>
              drawn_graph (snd (new ! idx)) = self_g self ! idx \<and>
              drawn_pos (snd (new ! idx)) = self_pos self ! idx)"
      using v by blast
  qed
qed

text \<open>
  C10, witness: an object with \<open>fig_path = networkx.png\<close> and the same with
  \<open>other.png\<close>: the same result, and with \<open>other.png\<close> the files saved are \<open>graph0.png\<close>
  for the beta \<open>0\<close> and \<open>graph1.png\<close> for the beta \<open>1\<close>.
\<close>

theorem fig_path_unused_witness:
  "visualize_graph recording_nx
      \<lparr>self_n = 20, self_k = 4, self_beta = [0, 1], self_visualize = True,
       self_fig_path = ''other.png'', self_g = [(20, 4, 0, 0), (20, 4, 1, 1)],
       self_pos = [20, 20]\<rparr> []
   = visualize_graph recording_nx
      \<lparr>self_n = 20, self_k = 4, self_beta = [0, 1], self_visualize = True,
       self_fig_path = ''networkx.png'', self_g = [(20, 4, 0, 0), (20, 4, 1, 1)],
       self_pos = [20, 20]\<rparr> []
   \<and> SmallWorld_init recording_nx 20 4 (BetaList [0, 1]) True ''other.png'' 0
   = (Inr \<lparr>self_n = 20, self_k = 4, self_beta = [0, 1], self_visualize = True,
       self_fig_path = ''other.png'', self_g = [(20, 4, 0, 0), (20, 4, 1, 1)],
       self_pos = [20, 20]\<rparr>, 2)
   \<and> (\<exists>new. visualize_graph recording_nx
      \<lparr>self_n = 20, self_k = 4, self_beta = [0, 1], self_visualize = True,
       self_fig_path = ''other.png'', self_g = [(20, 4, 0, 0), (20, 4, 1, 1)],
       self_pos = [20, 20]\<rparr> [] = (Inr (), new) \<and>
       map fst new = [''graph0.png'', ''graph1.png''] \<and>
       map (\<lambda>f. title_beta (snd f)) new = [0, 1] \<and>
       map (\<lambda>f. drawn_graph (snd f)) new = [(20, 4, 0, 0), (20, 4, 1, 1)] \<and>
       map (\<lambda>f. drawn_pos (snd f)) new = [20, 20])"
proof -
  let ?self = "\<lparr>self_n = 20, self_k = 4, self_beta = [0, 1], self_visualize = True,
       self_fig_path = ''networkx.png'',
       self_g = [(20 :: int, 4 :: int, 0 :: rat, 0 :: nat), (20, 4, 1, 1)],
       self_pos = [20 :: int, 20]\<rparr>"
  have h: "SmallWorld_init recording_nx 20 4 (BetaList [0, 1]) True ''networkx.png'' 0
             = (Inr ?self, 2)"
    by (simp add: SmallWorld_init_def normalize_beta_def recording_nx_def)
  have a: "self_n ?self \<le> 5000 \<and> get_avg_path recording_nx ?self = Inr [2, 2] \<and>
       get_clustering_coefficient ?self = Inr [9 / 2, 1 / 5] \<and>
       length (self_g ?self) = length (self_beta ?self) \<and>
       length (self_pos ?self) = length (self_beta ?self)"
    by (simp add: get_avg_path_def recording_nx_def get_clustering_coefficient_closed_form
        lattice_term_def)
  note t = fig_path_unused [where self = ?self and nx = recording_nx and p = "''other.png''" and fs = "[]"
      and n = 20 and k = 4 and beta = "BetaList [0, 1]" and vis = True
      and fp = "''networkx.png''" and s = 0 and self' = ?self and t = 2
      and avgs = "[2, 2]" and cls = "[9 / 2, 1 / 5]"]
  note same = t [THEN conjunct1]
  note init = t [THEN conjunct2, THEN conjunct2, THEN conjunct2, THEN conjunct2, THEN conjunct2,
       THEN conjunct1, THEN mp, OF h]
  from t [THEN conjunct2, THEN conjunct2, THEN conjunct2, THEN conjunct2, THEN conjunct2,
       THEN conjunct2, THEN mp, OF a]
  obtain new where v: "visualize_graph recording_nx (?self\<lparr>self_fig_path := ''other.png''\<rparr>) []
        = (Inr (), [] @ new)"
    and l: "length new = length (self_beta ?self)"
    and e: "\<forall>idx < length (self_beta ?self).
              fst (new ! idx) = ''graph'' @ string_of_nat idx @ ''.png'' \<and>
              title_beta (snd (new ! idx)) = self_beta ?self ! idx \<and>
              drawn_graph (snd (new ! idx)) = self_g ?self ! idx \<and>
              drawn_pos (snd (new ! idx)) = self_pos ?self ! idx"
    by blast
  from l have "length new = 2" by simp
  from list_of_length_two [OF this] obtain f0 f1 where new: "new = [f0, f1]"
    by blast
  from e [rule_format, of 0] e [rule_format, of "Suc 0"] new
  have "map fst new = [''graph0.png'', ''graph1.png'']"
    "map (\<lambda>f. title_beta (snd f)) new = [0, 1]"
    "map (\<lambda>f. drawn_graph (snd f)) new = [(20, 4, 0, 0), (20, 4, 1, 1)]"
    "map (\<lambda>f. drawn_pos (snd f)) new = [20, 20]"
    by (simp_all add: string_of_nat.simps)
  with same init v show ?thesis
    by simp
qed

end
